theory Spec2Isabelle
  imports Complex_Main
begin

section \<open>The PID controller (pid.py)\<close>

text \<open>
  Numbers of the controller are Python floats received as \<open>Float64\<close> messages; they are
  modelled as \<^typ>\<open>real\<close>, so \<open>+\<close>, \<open>-\<close>, \<open>*\<close>, \<open>min\<close>, \<open>max\<close> and \<open>abs\<close> are the exact
  operations (no rounding, no NaN, no infinities).

  \<open>class PID\<close>: the seven parameters of \<open>__init__\<close> and the three running fields.
  \<open>set_point\<close> is \<open>None\<close> until the first message on the "desired" topic.
\<close>

record PID =
  Kp :: real
  Ki :: real
  Kd :: real
  upper_limit :: real
  lower_limit :: real
  windup_limit :: real
  deadband_width :: real
  set_point :: "real option"
  last_error :: real
  integrator :: real

text \<open>
  \<open>PID.__init__(self, Kp, Ki, Kd, upper_limit, lower_limit, windup_limit, deadband_width)\<close>:
  stores every argument as given and leaves the set point unset. It has no check and no
  raise.
\<close>

definition PID_init :: "real \<Rightarrow> real \<Rightarrow> real \<Rightarrow> real \<Rightarrow> real \<Rightarrow> real \<Rightarrow> real \<Rightarrow> PID" where
  "PID_init kp ki kd upper lower windup deadband =
     \<lparr>Kp = kp, Ki = ki, Kd = kd, upper_limit = upper, lower_limit = lower,
      windup_limit = windup, deadband_width = deadband,
      set_point = None, last_error = 0, integrator = 0\<rparr>"

text \<open>
  \<open>PID.update(self, state)\<close>: the returned value (\<open>None\<close> for the bare \<open>return\<close>) paired with
  the object after the call. The assignments to \<open>self.last_error\<close> and \<open>self.integrator\<close>
  are kept in the order of the source.
\<close>

definition update :: "PID \<Rightarrow> real \<Rightarrow> real option \<times> PID" where
  "update self state =
     (case set_point self of
        None \<Rightarrow> (None, self)
      | Some sp \<Rightarrow>
          (let error = sp - state;
               p_value = Kp self * error;
               d_value = Kd self * (error - last_error self);
               self1 = self\<lparr>last_error := error\<rparr>;
               self2 = self1\<lparr>integrator := integrator self1 + error\<rparr>;
               self3 = self2\<lparr>integrator :=
                          max (- windup_limit self2) (min (windup_limit self2) (integrator self2))\<rparr>;
               i_value = Ki self3 * integrator self3;
               res = p_value + i_value + d_value;
               res' = min (upper_limit self3) (max (lower_limit self3) res)
           in if \<bar>res'\<bar> < deadband_width self3 then (Some 0, self3) else (Some res', self3)))"

text \<open>
  \<open>set_point_callback(item)\<close> of the node: \<open>pid.set_point = item.data\<close>.
\<close>

definition set_point_callback :: "PID \<Rightarrow> real \<Rightarrow> PID" where
  "set_point_callback pid item_data = pid\<lparr>set_point := Some item_data\<rparr>"

text \<open>
  \<open>state_callback(item)\<close> of the node: the list of messages published on the command
  topic by this call (none when \<open>update\<close> returned \<open>None\<close>), and the controller afterwards.
\<close>

definition state_callback :: "PID \<Rightarrow> real \<Rightarrow> real list \<times> PID" where
  "state_callback pid item_data =
     (case update pid item_data of
        (None, pid') \<Rightarrow> ([], pid')
      | (Some cmd, pid') \<Rightarrow> ([cmd], pid'))"

text \<open>
  Calling \<open>update\<close> once per measurement of a list, in order, on the same object: the
  returned values and the object after the last call.
\<close>

fun updates :: "PID \<Rightarrow> real list \<Rightarrow> real option list \<times> PID" where
  "updates self [] = ([], self)"
| "updates self (state # states) =
     (case update self state of
        (r, self') \<Rightarrow> (case updates self' states of (rs, self'') \<Rightarrow> (r # rs, self'')))"

text \<open>
  The start of the node (\<open>if __name__ == '__main__'\<close>) up to the construction of the
  controller. \<open>namespace\<close> is \<open>rospy.get_namespace()\<close>; \<open>params\<close> is the parameter server
  restricted to the private names \<open>~Kp\<close>, ..., \<open>~deadband_width\<close> (\<open>has_param\<close> is
  \<open>params name \<noteq> None\<close>, \<open>get_param\<close> its value). Only the parameters that are present
  are passed to \<open>PID(**param_values)\<close>; the others take the defaults of \<open>__init__\<close>.
  The only raise is the one for the global namespace.
\<close>

datatype py_error =
    ValueError
  | RuntimeError string
  | PILError
  | StoreError
  | ConnectionError

definition param_or :: "(string \<Rightarrow> real option) \<Rightarrow> string \<Rightarrow> real \<Rightarrow> real" where
  "param_or params param_name dflt = (case params param_name of None \<Rightarrow> dflt | Some v \<Rightarrow> v)"

definition pid_main :: "string \<Rightarrow> (string \<Rightarrow> real option) \<Rightarrow> py_error + PID" where
  "pid_main namespace params =
     (if namespace = ''/'' then
        Inl (RuntimeError
          ''Cannot be run in the global namespace. Please designate an environment for this module.'')
      else
        Inr (PID_init (param_or params ''Kp'' 0) (param_or params ''Ki'' 0)
               (param_or params ''Kd'' 0) (param_or params ''upper_limit'' 1)
               (param_or params ''lower_limit'' (- 1)) (param_or params ''windup_limit'' 1000)
               (param_or params ''deadband_width'' 0)))"

section \<open>The image sink (image_persistence.py)\<close>

text \<open>
  The document built by \<open>on_image\<close>: the dictionary handed to \<open>EnvironmentalDataPoint\<close>,
  with its five keys. The key \<open>value\<close> is the field \<open>point_value\<close> (\<open>None\<close> is Python's \<open>None\<close>).
\<close>

record EnvironmentalDataPoint =
  point_environment :: string
  point_variable :: string
  is_desired :: bool
  point_value :: "real option"
  timestamp :: real

text \<open>
  An image message (\<open>sensor_msgs/Image\<close>): the four fields \<open>on_image\<close> reads.
\<close>

record ImageMsg =
  encoding :: string
  width :: nat
  height :: nat
  data :: string

text \<open>
  \<open>class ImagePersistence\<close>. \<open>db\<close> stands for the database handle and holds its
  \<open>resource.url\<close>; \<open>variable\<close> holds \<open>variable.name\<close>. Times are \<open>time.time()\<close> readings,
  modelled as \<^typ>\<open>real\<close>.
\<close>

record ImagePersistence =
  db :: string
  variable :: string
  environment :: string
  min_update_interval :: real
  last_update :: real

text \<open>
  \<open>ImagePersistence.__init__\<close>: \<open>last_update\<close> starts at the number 0. (The subscription to
  the topic is what makes \<open>on_image\<close> run once per frame; see \<open>on_images\<close> below.)
\<close>

definition ImagePersistence_init ::
  "string \<Rightarrow> string \<Rightarrow> string \<Rightarrow> string \<Rightarrow> real \<Rightarrow> ImagePersistence" where
  "ImagePersistence_init db_url topic variable_name env interval =
     \<lparr>db = db_url, variable = variable_name, environment = env,
      min_update_interval = interval, last_update = 0\<rparr>"

text \<open>The class attribute \<open>image_format_mapping\<close>, read with \<open>.get(item.encoding, None)\<close>.\<close>

definition image_format_mapping :: "string \<Rightarrow> string option" where
  "image_format_mapping = [''rgb8'' \<mapsto> ''RGB'', ''rgba8'' \<mapsto> ''RGBA'']"

text \<open>
  What \<open>on_image\<close> does to the outside, in the order it does it: the log line, the
  document handed to \<open>db.save\<close>, and the HTTP PUT (url, headers, body).
\<close>

datatype effect =
    LogInfo string
  | DbSave EnvironmentalDataPoint
  | HttpPut string "(string \<times> string) list" string

text \<open>
  The imaging library, a parameter of the model: \<open>fromstring\<close> is
  \<open>Image.fromstring(mode, size, data)\<close> and \<open>save_png\<close> is \<open>img.save(buf, "PNG")\<close> followed by
  reading the buffer; \<open>None\<close> is a raise inside the library.
\<close>

record 'img PIL =
  fromstring :: "string \<Rightarrow> nat \<times> nat \<Rightarrow> string \<Rightarrow> 'img option"
  save_png :: "'img \<Rightarrow> string option"

text \<open>
  What the outside answers during one call of \<open>on_image\<close>: the two clock readings
  (\<open>curr_time\<close> at the gate, and the \<open>timestamp\<close> of the document), the \<open>(id, rev)\<close> pair
  returned by \<open>db.save\<close> (\<open>None\<close>: it raised), and the status code and content of the
  response to the PUT (\<open>None\<close>: \<open>requests.put\<close> raised).
\<close>

record world =
  curr_time :: real
  stamp_time :: real
  save_reply :: "(string \<times> string) option"
  put_reply :: "(nat \<times> string) option"

text \<open>
  \<open>ImagePersistence.on_image(self, item)\<close>: the exception that leaves the call, if any
  (\<open>Inr ()\<close> is a normal return), the object afterwards, and the effects so far
  extended by those of this call. The assignment to \<open>self.last_update\<close> comes right after
  the rate limit and before everything else, as in the source.
\<close>

definition on_image ::
  "'img PIL \<Rightarrow> world \<Rightarrow> ImagePersistence \<Rightarrow> effect list \<Rightarrow> ImageMsg
     \<Rightarrow> (py_error + unit) \<times> ImagePersistence \<times> effect list" where
  "on_image pil w self effects item =
     (if curr_time w - last_update self < min_update_interval self then (Inr (), self, effects)
      else
        (let self1 = self\<lparr>last_update := curr_time w\<rparr>;
             effects1 = effects @ [LogInfo ''Posting image'']
         in case image_format_mapping (encoding item) of
              None \<Rightarrow> (Inl ValueError, self1, effects1)
            | Some image_format \<Rightarrow>
                (case fromstring pil image_format (width item, height item) (data item) of
                   None \<Rightarrow> (Inl PILError, self1, effects1)
                 | Some img \<Rightarrow>
                     (let point = \<lparr>point_environment = environment self1,
                                   point_variable = variable self1,
                                   is_desired = False,
                                   point_value = None,
                                   timestamp = stamp_time w\<rparr>;
                          effects2 = effects1 @ [DbSave point]
                      in case save_reply w of
                           None \<Rightarrow> (Inl StoreError, self1, effects2)
                         | Some (point_id, point_rev) \<Rightarrow>
                             (let url = db self1 @ ''/'' @ point_id @ ''/image?rev='' @ point_rev
                              in case save_png pil img of
                                   None \<Rightarrow> (Inl PILError, self1, effects2)
                                 | Some buf \<Rightarrow>
                                     (let headers = [(''Content-Type'', ''image/png'')];
                                          effects3 = effects2 @ [HttpPut url headers buf]
                                      in case put_reply w of
                                           None \<Rightarrow> (Inl ConnectionError, self1, effects3)
                                         | Some (status_code, content) \<Rightarrow>
                                             if status_code \<noteq> 201 then
                                               (Inl (RuntimeError
                                                  (''Failed to post image to database: '' @ content)),
                                                self1, effects3)
                                             else (Inr (), self1, effects3)))))))"

text \<open>
  The subscriber calls \<open>on_image\<close> once per frame, in arrival order, on the same object;
  an exception of one call ends that call only. Each frame comes with what the outside
  answers during its call.
\<close>

fun on_images ::
  "'img PIL \<Rightarrow> ImagePersistence \<Rightarrow> effect list \<Rightarrow> (world \<times> ImageMsg) list
     \<Rightarrow> ImagePersistence \<times> effect list" where
  "on_images pil self effects [] = (self, effects)"
| "on_images pil self effects ((w, item) # frames) =
     (case on_image pil w self effects item of
        (r, self', effects') \<Rightarrow> on_images pil self' effects' frames)"

text \<open>The documents handed to \<open>db.save\<close> among a list of effects, in order.\<close>

fun saved_points :: "effect list \<Rightarrow> EnvironmentalDataPoint list" where
  "saved_points [] = []"
| "saved_points (DbSave point # es) = point # saved_points es"
| "saved_points (e # es) = saved_points es"

section \<open>Properties of the controller\<close>

subsection \<open>What one call of update computes\<close>

lemma if_pair: "(if c then (a, s) else (b, s)) = ((if c then a else b), s)"
  by (cases c) simp_all

lemma if_all_cong:
  "b = c \<Longrightarrow> x = u \<Longrightarrow> y = v \<Longrightarrow> (if b then x else y) = (if c then u else v)"
  by simp

lemma update_unset: "set_point self = None \<Longrightarrow> update self state = (None, self)"
  by (simp add: update_def)

lemma update_set:
  "set_point self = Some sp \<Longrightarrow>
   update self state =
     ((if \<bar>min (upper_limit self) (max (lower_limit self)
            (Kp self * (sp - state)
             + Ki self * max (- windup_limit self)
                           (min (windup_limit self) (integrator self + (sp - state)))
             + Kd self * (sp - state - last_error self)))\<bar> < deadband_width self
       then Some 0
       else Some (min (upper_limit self) (max (lower_limit self)
            (Kp self * (sp - state)
             + Ki self * max (- windup_limit self)
                           (min (windup_limit self) (integrator self + (sp - state)))
             + Kd self * (sp - state - last_error self))))),
      self\<lparr>last_error := sp - state,
           integrator := max (- windup_limit self)
                           (min (windup_limit self) (integrator self + (sp - state)))\<rparr>)"
  unfolding update_def
  apply (simp only: option.case)
  apply (simp only: Let_def)
  apply (simp only: PID.simps if_pair)
  apply (simp split del: if_split cong: if_all_cong)
  done

lemma clamp_bounds:
  fixes l u r :: real
  shows "l \<le> u \<Longrightarrow> l \<le> min u (max l r) \<and> min u (max l r) \<le> u"
  by (simp add: min_def max_def)










subsection \<open>Output clamping and deadband\<close>

text \<open>
  C1, as stated, fails: the deadband is applied after the clamp, so with limits that do not
  contain 0 (here \<open>lower_limit = 1\<close>, \<open>upper_limit = 2\<close>, \<open>deadband_width = 3\<close>) the clamped
  value 1 is replaced by 0, which is below \<open>lower_limit\<close>.
\<close>

theorem C1_counterexample:
  "lower_limit (set_point_callback (PID_init 0 0 0 2 1 1000 3) 0)
     \<le> upper_limit (set_point_callback (PID_init 0 0 0 2 1 1000 3) 0)
   \<and> fst (update (set_point_callback (PID_init 0 0 0 2 1 1000 3) 0) 0) = Some 0
   \<and> \<not> (lower_limit (set_point_callback (PID_init 0 0 0 2 1 1000 3) 0) \<le> 0)"
proof -
  have sp: "set_point (set_point_callback (PID_init 0 0 0 2 1 1000 3) 0) = Some 0"
    by (simp add: set_point_callback_def)
  show ?thesis
    unfolding update_set [OF sp]
    by (simp add: set_point_callback_def PID_init_def)
qed

text \<open>
  C1 (amended): given \<open>lower_limit \<le> upper_limit\<close>, a numeric output of \<open>update\<close> is either
  exactly 0 or lies in \<open>[lower_limit, upper_limit]\<close>, for every controller state and every
  measured value; it lies in \<open>[lower_limit, upper_limit]\<close> whenever \<open>deadband_width \<le> 0\<close> or
  \<open>lower_limit \<le> 0 \<le> upper_limit\<close>.
\<close>

theorem C1_output_clamped:
  assumes "lower_limit self \<le> upper_limit self" and "fst (update self state) = Some out"
  shows "(out = 0 \<or> (lower_limit self \<le> out \<and> out \<le> upper_limit self))
       \<and> ((deadband_width self \<le> 0 \<or> (lower_limit self \<le> 0 \<and> 0 \<le> upper_limit self))
            \<longrightarrow> lower_limit self \<le> out \<and> out \<le> upper_limit self)"
proof (cases "set_point self")
  case None
  with assms(2) show ?thesis by (simp add: update_unset)
next
  case (Some sp)
  define m where "m = min (upper_limit self) (max (lower_limit self)
            (Kp self * (sp - state)
             + Ki self * max (- windup_limit self)
                           (min (windup_limit self) (integrator self + (sp - state)))
             + Kd self * (sp - state - last_error self)))"
  have m: "lower_limit self \<le> m \<and> m \<le> upper_limit self"
    unfolding m_def using assms(1) by (rule clamp_bounds)
  have "fst (update self state) = (if \<bar>m\<bar> < deadband_width self then Some 0 else Some m)"
    unfolding update_set [OF Some] m_def by simp
  with assms(2) have out: "out = (if \<bar>m\<bar> < deadband_width self then 0 else m)"
    by (simp split: if_splits)
  show ?thesis
  proof (cases "\<bar>m\<bar> < deadband_width self")
    case True
    with out have "out = 0" by simp
    moreover from True have "\<not> deadband_width self \<le> 0" by simp
    ultimately show ?thesis by simp
  next
    case False
    with out have "out = m" by simp
    with m show ?thesis by simp
  qed
qed

theorem C1_output_clamped_witness:
  "lower_limit (set_point_callback (PID_init 1 0 0 1 (- 1) 1000 0) 5)
     \<le> upper_limit (set_point_callback (PID_init 1 0 0 1 (- 1) 1000 0) 5)
   \<and> fst (update (set_point_callback (PID_init 1 0 0 1 (- 1) 1000 0) 5) 3) = Some 1
   \<and> lower_limit (set_point_callback (PID_init 1 0 0 1 (- 1) 1000 0) 5) \<le> 1
   \<and> 1 \<le> upper_limit (set_point_callback (PID_init 1 0 0 1 (- 1) 1000 0) 5)"
proof -
  have sp: "set_point (set_point_callback (PID_init 1 0 0 1 (- 1) 1000 0) 5) = Some 5"
    by (simp add: set_point_callback_def)
  have lim: "lower_limit (set_point_callback (PID_init 1 0 0 1 (- 1) 1000 0) 5)
     \<le> upper_limit (set_point_callback (PID_init 1 0 0 1 (- 1) 1000 0) 5)"
    by (simp add: set_point_callback_def PID_init_def)
  have out: "fst (update (set_point_callback (PID_init 1 0 0 1 (- 1) 1000 0) 5) 3) = Some 1"
    unfolding update_set [OF sp]
    by (simp add: set_point_callback_def PID_init_def)
  from C1_output_clamped [OF lim out] lim out show ?thesis
    by (simp add: set_point_callback_def PID_init_def)
qed


subsection \<open>Integrator anti-windup\<close>



subsection \<open>No set point, no output\<close>

lemma updates_unset:
  "set_point self = None \<Longrightarrow> updates self states = (replicate (length states) None, self)"
  by (induction states) (simp_all add: update_unset)

text \<open>
  C5: on a controller as constructed (no set point received yet), and on any controller
  whose set point is unset, every call of a sequence of \<open>update\<close> calls returns \<open>None\<close>,
  never 0 or another number, and leaves the controller as it was; \<open>state_callback\<close> then
  publishes nothing.
\<close>

theorem C5_no_output_before_set_point:
  "updates (PID_init kp ki kd upper lower windup deadband) states
     = (replicate (length states) None, PID_init kp ki kd upper lower windup deadband)
   \<and> (set_point self = None \<longrightarrow>
         updates self states = (replicate (length states) None, self)
         \<and> update self state = (None, self)
         \<and> state_callback self state = ([], self))"
proof -
  have "set_point (PID_init kp ki kd upper lower windup deadband) = None"
    by (simp add: PID_init_def)
  then have "updates (PID_init kp ki kd upper lower windup deadband) states
     = (replicate (length states) None, PID_init kp ki kd upper lower windup deadband)"
    by (rule updates_unset)
  moreover have "state_callback self state = ([], self)" if "set_point self = None"
    using that by (simp add: state_callback_def update_unset)
  ultimately show ?thesis
    by (simp add: updates_unset update_unset)
qed

theorem C5_no_output_before_set_point_witness:
  "set_point (PID_init 1 2 3 1 (- 1) 1000 0) = None
   \<and> updates (PID_init 1 2 3 1 (- 1) 1000 0) [20, 0, - 5]
       = ([None, None, None], PID_init 1 2 3 1 (- 1) 1000 0)"
proof -
  have sp: "set_point (PID_init 1 2 3 1 (- 1) 1000 0) = None"
    by (simp add: PID_init_def)
  from C5_no_output_before_set_point [of 1 2 3 1 "- 1" 1000 0 "[20, 0, - 5]"
      "PID_init 1 2 3 1 (- 1) 1000 0" 0] sp
  show ?thesis by (simp add: numeral_3_eq_3)
qed

subsection \<open>Deadband\<close>

lemma deadband_output:
  assumes "set_point self = Some sp"
      and "\<bar>min (upper_limit self) (max (lower_limit self)
             (Kp self * (sp - state)
              + Ki self * max (- windup_limit self)
                            (min (windup_limit self) (integrator self + (sp - state)))
              + Kd self * (sp - state - last_error self)))\<bar> < deadband_width self"
  shows "fst (update self state) = Some 0"
  unfolding update_set [OF assms(1)] fst_conv
  by (rule if_P) (rule assms(2))

lemma deadband_example:
  "set_point (set_point_callback (PID_init 1 0 0 1 (- 1) 1000 (1 / 2)) 1) = Some 1"
  "Kp (set_point_callback (PID_init 1 0 0 1 (- 1) 1000 (1 / 2)) 1) * (1 - 3 / 4)
     + Ki (set_point_callback (PID_init 1 0 0 1 (- 1) 1000 (1 / 2)) 1)
       * max (- windup_limit (set_point_callback (PID_init 1 0 0 1 (- 1) 1000 (1 / 2)) 1))
           (min (windup_limit (set_point_callback (PID_init 1 0 0 1 (- 1) 1000 (1 / 2)) 1))
              (integrator (set_point_callback (PID_init 1 0 0 1 (- 1) 1000 (1 / 2)) 1)
               + (1 - 3 / 4)))
     + Kd (set_point_callback (PID_init 1 0 0 1 (- 1) 1000 (1 / 2)) 1)
       * (1 - 3 / 4 - last_error (set_point_callback (PID_init 1 0 0 1 (- 1) 1000 (1 / 2)) 1))
     = 1 / 4"
  "upper_limit (set_point_callback (PID_init 1 0 0 1 (- 1) 1000 (1 / 2)) 1) = 1"
  "lower_limit (set_point_callback (PID_init 1 0 0 1 (- 1) 1000 (1 / 2)) 1) = - 1"
  "deadband_width (set_point_callback (PID_init 1 0 0 1 (- 1) 1000 (1 / 2)) 1) = 1 / 2"
  by (simp_all add: set_point_callback_def PID_init_def)

text \<open>
  C6: with a set point present and the clamped output of absolute value below
  \<open>deadband_width\<close>, \<open>update\<close> returns the number 0, a value that is present (it differs from
  \<open>None\<close>, and \<open>state_callback\<close> publishes it); and there is an input whose \<open>raw = p + i + d\<close>
  is not 0 and whose output is 0.
\<close>

theorem C6_deadband_zero:
  fixes self :: PID and state sp :: real
  defines "error \<equiv> sp - state"
  defines "raw \<equiv> Kp self * error
                 + Ki self * max (- windup_limit self) (min (windup_limit self) (integrator self + error))
                 + Kd self * (error - last_error self)"
  assumes "set_point self = Some sp"
      and "\<bar>min (upper_limit self) (max (lower_limit self) raw)\<bar> < deadband_width self"
  shows "fst (update self state) = Some 0 \<and> fst (update self state) \<noteq> None
       \<and> fst (state_callback self state) = [0]
       \<and> (\<exists>pid x v. set_point pid = Some v
             \<and> Kp pid * (v - x)
                 + Ki pid * max (- windup_limit pid) (min (windup_limit pid) (integrator pid + (v - x)))
                 + Kd pid * (v - x - last_error pid) \<noteq> 0
             \<and> fst (update pid x) = Some 0)"
proof -
  have out: "fst (update self state) = Some 0"
    using assms(3) assms(4) [unfolded raw_def error_def] by (rule deadband_output)
  then have pub: "fst (state_callback self state) = [0]"
    by (cases "update self state") (simp add: state_callback_def)
  let ?pid = "set_point_callback (PID_init 1 0 0 1 (- 1) 1000 (1 / 2)) 1"
  have "\<bar>min (upper_limit ?pid) (max (lower_limit ?pid)
             (Kp ?pid * (1 - 3 / 4)
              + Ki ?pid * max (- windup_limit ?pid)
                            (min (windup_limit ?pid) (integrator ?pid + (1 - 3 / 4)))
              + Kd ?pid * (1 - 3 / 4 - last_error ?pid)))\<bar> < deadband_width ?pid"
    unfolding deadband_example by simp
  with deadband_example(1) have "fst (update ?pid (3 / 4)) = Some 0"
    by (rule deadband_output)
  moreover have "Kp ?pid * (1 - 3 / 4)
              + Ki ?pid * max (- windup_limit ?pid)
                            (min (windup_limit ?pid) (integrator ?pid + (1 - 3 / 4)))
              + Kd ?pid * (1 - 3 / 4 - last_error ?pid) \<noteq> 0"
    unfolding deadband_example(2) by simp
  ultimately have "\<exists>pid x v. set_point pid = Some v
             \<and> Kp pid * (v - x)
                 + Ki pid * max (- windup_limit pid) (min (windup_limit pid) (integrator pid + (v - x)))
                 + Kd pid * (v - x - last_error pid) \<noteq> 0
             \<and> fst (update pid x) = Some 0"
    using deadband_example(1) by (intro exI [of _ ?pid] exI [of _ "3 / 4"] exI [of _ 1] conjI)
  with out pub show ?thesis by simp
qed

theorem C6_deadband_zero_witness:
  "set_point (set_point_callback (PID_init 1 0 0 1 (- 1) 1000 (1 / 2)) 1) = Some 1
   \<and> fst (update (set_point_callback (PID_init 1 0 0 1 (- 1) 1000 (1 / 2)) 1) (3 / 4)) = Some 0
   \<and> fst (state_callback (set_point_callback (PID_init 1 0 0 1 (- 1) 1000 (1 / 2)) 1) (3 / 4)) = [0]"
proof -
  let ?pid = "set_point_callback (PID_init 1 0 0 1 (- 1) 1000 (1 / 2)) 1"
  have band: "\<bar>min (upper_limit ?pid) (max (lower_limit ?pid)
       (Kp ?pid * (1 - 3 / 4)
        + Ki ?pid * max (- windup_limit ?pid) (min (windup_limit ?pid) (integrator ?pid + (1 - 3 / 4)))
        + Kd ?pid * (1 - 3 / 4 - last_error ?pid)))\<bar> < deadband_width ?pid"
    unfolding deadband_example by simp
  from C6_deadband_zero [OF deadband_example(1) band] deadband_example(1) show ?thesis
    by (simp only: simp_thms)
qed

subsection \<open>The set-point callback\<close>

text \<open>
  C9: \<open>set_point_callback\<close> changes \<open>set_point\<close> and nothing else: \<open>last_error\<close> and
  \<open>integrator\<close> keep their values, and the next \<open>update\<close> computes the derivative term from
  the old \<open>last_error\<close> and accumulates onto the old \<open>integrator\<close>, with the error taken against
  the new set point.
\<close>

theorem C9_set_point_only:
  "set_point_callback pid v = pid\<lparr>set_point := Some v\<rparr>
   \<and> last_error (set_point_callback pid v) = last_error pid
   \<and> integrator (set_point_callback pid v) = integrator pid
   \<and> snd (update (set_point_callback pid v) state)
       = pid\<lparr>set_point := Some v, last_error := v - state,
              integrator := max (- windup_limit pid)
                              (min (windup_limit pid) (integrator pid + (v - state)))\<rparr>
   \<and> fst (update (set_point_callback pid v) state)
       = (if \<bar>min (upper_limit pid) (max (lower_limit pid)
               (Kp pid * (v - state)
                + Ki pid * max (- windup_limit pid)
                             (min (windup_limit pid) (integrator pid + (v - state)))
                + Kd pid * (v - state - last_error pid)))\<bar> < deadband_width pid
          then Some 0
          else Some (min (upper_limit pid) (max (lower_limit pid)
               (Kp pid * (v - state)
                + Ki pid * max (- windup_limit pid)
                             (min (windup_limit pid) (integrator pid + (v - state)))
                + Kd pid * (v - state - last_error pid)))))"
proof -
  have sp: "set_point (set_point_callback pid v) = Some v"
    by (simp add: set_point_callback_def)
  show ?thesis
    unfolding update_set [OF sp]
    by (simp add: set_point_callback_def split del: if_split cong: if_all_cong)
qed

subsection \<open>Configuration at startup\<close>

text \<open>
  C3, as stated, fails: started in the namespace \<open>/environment_1/\<close> with
  \<open>lower_limit = 2\<close>, \<open>upper_limit = 1\<close>, \<open>windup_limit = - 1\<close> and \<open>deadband_width = - 1\<close>, the
  node constructs the controller with exactly these values.
\<close>

theorem C3_counterexample:
  "pid_main ''/environment_1/''
     [''lower_limit'' \<mapsto> 2, ''upper_limit'' \<mapsto> 1, ''windup_limit'' \<mapsto> - 1,
      ''deadband_width'' \<mapsto> - 1]
     = Inr (PID_init 0 0 0 1 2 (- 1) (- 1))
   \<and> upper_limit (PID_init 0 0 0 1 2 (- 1) (- 1)) < lower_limit (PID_init 0 0 0 1 2 (- 1) (- 1))
   \<and> windup_limit (PID_init 0 0 0 1 2 (- 1) (- 1)) < 0
   \<and> deadband_width (PID_init 0 0 0 1 2 (- 1) (- 1)) < 0"
  by (simp add: pid_main_def param_or_def PID_init_def)

text \<open>
  C3 (amended): the constructor stores \<open>Kp\<close>, \<open>Ki\<close>, \<open>Kd\<close>, \<open>upper_limit\<close>, \<open>lower_limit\<close>,
  \<open>windup_limit\<close> and \<open>deadband_width\<close> exactly as given, with the set point unset and
  \<open>last_error\<close> and \<open>integrator\<close> at 0, for all values: no relation between the limits and no
  sign of \<open>windup_limit\<close> or \<open>deadband_width\<close> is checked. The start of the node constructs the
  controller, each of the seven parameters being the configured value or its default,
  exactly when the namespace is not the global one.
\<close>

theorem C3_startup_unchecked:
  "(\<exists>pid. pid_main namespace params = Inr pid
          \<and> Kp pid = param_or params ''Kp'' 0
          \<and> Ki pid = param_or params ''Ki'' 0
          \<and> Kd pid = param_or params ''Kd'' 0
          \<and> upper_limit pid = param_or params ''upper_limit'' 1
          \<and> lower_limit pid = param_or params ''lower_limit'' (- 1)
          \<and> windup_limit pid = param_or params ''windup_limit'' 1000
          \<and> deadband_width pid = param_or params ''deadband_width'' 0
          \<and> set_point pid = None \<and> last_error pid = 0 \<and> integrator pid = 0)
     = (namespace \<noteq> ''/'')
   \<and> PID_init kp ki kd upper lower windup deadband
       = \<lparr>Kp = kp, Ki = ki, Kd = kd, upper_limit = upper, lower_limit = lower,
          windup_limit = windup, deadband_width = deadband,
          set_point = None, last_error = 0, integrator = 0\<rparr>"
  by (simp add: pid_main_def PID_init_def)

section \<open>Properties of the image sink\<close>

subsection \<open>What one call of on_image does\<close>

lemma on_image_limited:
  "curr_time w - last_update self < min_update_interval self \<Longrightarrow>
   on_image pil w self effects item = (Inr (), self, effects)"
  by (simp add: on_image_def)

lemma on_image_self:
  "\<not> curr_time w - last_update self < min_update_interval self \<Longrightarrow>
   fst (snd (on_image pil w self effects item)) = self\<lparr>last_update := curr_time w\<rparr>"
  by (simp add: on_image_def Let_def split: option.splits prod.splits)

lemma on_image_log:
  "\<not> curr_time w - last_update self < min_update_interval self \<Longrightarrow>
   \<exists>more. snd (snd (on_image pil w self effects item))
             = effects @ LogInfo ''Posting image'' # more"
  by (simp add: on_image_def Let_def split: option.splits prod.splits)

lemma on_image_unsupported:
  "\<not> curr_time w - last_update self < min_update_interval self \<Longrightarrow>
   image_format_mapping (encoding item) = None \<Longrightarrow>
   on_image pil w self effects item
     = (Inl ValueError, self\<lparr>last_update := curr_time w\<rparr>, effects @ [LogInfo ''Posting image''])"
  by (simp add: on_image_def Let_def)

lemma on_image_save_failed:
  "\<not> curr_time w - last_update self < min_update_interval self \<Longrightarrow>
   image_format_mapping (encoding item) = Some image_format \<Longrightarrow>
   fromstring pil image_format (width item, height item) (data item) = Some img \<Longrightarrow>
   save_reply w = None \<Longrightarrow>
   fst (on_image pil w self effects item) = Inl StoreError"
  by (simp add: on_image_def Let_def)

lemma on_image_posted:
  assumes "\<not> curr_time w - last_update self < min_update_interval self"
      and "image_format_mapping (encoding item) = Some image_format"
      and "fromstring pil image_format (width item, height item) (data item) = Some img"
      and "save_reply w = Some (point_id, point_rev)"
      and "save_png pil img = Some buf"
  shows "on_image pil w self effects item =
     ((case put_reply w of
         None \<Rightarrow> Inl ConnectionError
       | Some (status_code, content) \<Rightarrow>
           if status_code \<noteq> 201
           then Inl (RuntimeError (''Failed to post image to database: '' @ content))
           else Inr ()),
      self\<lparr>last_update := curr_time w\<rparr>,
      effects @ [LogInfo ''Posting image'',
                 DbSave \<lparr>point_environment = environment self, point_variable = variable self,
                         is_desired = False, point_value = None, timestamp = stamp_time w\<rparr>,
                 HttpPut (db self @ ''/'' @ point_id @ ''/image?rev='' @ point_rev)
                   [(''Content-Type'', ''image/png'')] buf])"
  using assms by (simp add: on_image_def Let_def split: option.splits prod.splits)

lemma saved_points_append: "saved_points (es @ fs) = saved_points es @ saved_points fs"
  by (induction es rule: saved_points.induct) simp_all

lemma on_images_early:
  "\<forall>(w, item) \<in> set frames. curr_time w - last_update self < min_update_interval self \<Longrightarrow>
   on_images pil self effects frames = (self, effects)"
  by (induction frames) (auto simp add: on_image_limited)

lemma format_rgb8: "image_format_mapping ''rgb8'' = Some ''RGB''"
  by (simp add: image_format_mapping_def)

lemma on_images_Cons_limited:
  "curr_time w - last_update self < min_update_interval self \<Longrightarrow>
   on_images pil self effects ((w, item) # frames) = on_images pil self effects frames"
  by (simp add: on_image_limited)

lemma on_images_single:
  "on_images pil self effects [(w, item)] = snd (on_image pil w self effects item)"
  by (simp split: prod.splits)

lemma on_images_Cons:
  "on_images pil self effects ((w, item) # frames)
     = on_images pil (fst (snd (on_image pil w self effects item)))
         (snd (snd (on_image pil w self effects item))) frames"
  by (simp split: prod.splits)

lemma on_image_saved_points:
  "\<not> curr_time w - last_update self < min_update_interval self \<Longrightarrow>
   image_format_mapping (encoding item) = Some image_format \<Longrightarrow>
   fromstring pil image_format (width item, height item) (data item) = Some img \<Longrightarrow>
   saved_points (snd (snd (on_image pil w self effects item)))
     = saved_points effects
       @ [\<lparr>point_environment = environment self, point_variable = variable self,
            is_desired = False, point_value = None, timestamp = stamp_time w\<rparr>]"
  by (simp add: on_image_def Let_def saved_points_append split: option.splits prod.splits)

lemma on_image_decode_failed:
  "\<not> curr_time w - last_update self < min_update_interval self \<Longrightarrow>
   image_format_mapping (encoding item) = Some image_format \<Longrightarrow>
   fromstring pil image_format (width item, height item) (data item) = None \<Longrightarrow>
   on_image pil w self effects item
     = (Inl PILError, self\<lparr>last_update := curr_time w\<rparr>, effects @ [LogInfo ''Posting image''])"
  by (simp add: on_image_def Let_def)

lemma on_image_encode_failed:
  "\<not> curr_time w - last_update self < min_update_interval self \<Longrightarrow>
   image_format_mapping (encoding item) = Some image_format \<Longrightarrow>
   fromstring pil image_format (width item, height item) (data item) = Some img \<Longrightarrow>
   save_reply w = Some (point_id, point_rev) \<Longrightarrow>
   save_png pil img = None \<Longrightarrow>
   on_image pil w self effects item
     = (Inl PILError, self\<lparr>last_update := curr_time w\<rparr>,
        effects @ [LogInfo ''Posting image'',
                   DbSave \<lparr>point_environment = environment self, point_variable = variable self,
                           is_desired = False, point_value = None, timestamp = stamp_time w\<rparr>])"
  by (simp add: on_image_def Let_def)

subsection \<open>The rate gate\<close>

text \<open>
  C7: the gate of \<open>on_image\<close> compares \<open>curr_time - last_update\<close> with
  \<open>min_update_interval\<close>. When the difference is at least the interval the call goes on:
  \<open>last_update\<close> becomes \<open>curr_time\<close> (the only change of the object) and the log line
  "Posting image" is the first new effect. Otherwise the call returns normally with the
  object and the effects unchanged. After a fire at \<open>t_last\<close> with interval \<open>T\<close>, a check at
  \<open>t_last + T - eps\<close> (\<open>eps > 0\<close>) changes nothing, and a check at \<open>t_last + T\<close> goes on and
  sets \<open>last_update\<close> to \<open>t_last + T\<close>.
\<close>

theorem C7_rate_gate:
  "(min_update_interval self \<le> curr_time w - last_update self \<longrightarrow>
      fst (snd (on_image pil w self effects item)) = self\<lparr>last_update := curr_time w\<rparr>
      \<and> (\<exists>more. snd (snd (on_image pil w self effects item))
                   = effects @ LogInfo ''Posting image'' # more))
   \<and> (curr_time w - last_update self < min_update_interval self \<longrightarrow>
      on_image pil w self effects item = (Inr (), self, effects))
   \<and> (last_update self = t_last \<and> min_update_interval self = T \<and> 0 < eps
        \<and> curr_time w = t_last + T - eps \<longrightarrow>
      on_image pil w self effects item = (Inr (), self, effects))
   \<and> (last_update self = t_last \<and> min_update_interval self = T \<and> curr_time w = t_last + T \<longrightarrow>
      last_update (fst (snd (on_image pil w self effects item))) = t_last + T
      \<and> (\<exists>more. snd (snd (on_image pil w self effects item))
                   = effects @ LogInfo ''Posting image'' # more))"
proof -
  have pass: "fst (snd (on_image pil w self effects item)) = self\<lparr>last_update := curr_time w\<rparr>
      \<and> (\<exists>more. snd (snd (on_image pil w self effects item))
                   = effects @ LogInfo ''Posting image'' # more)"
    if "min_update_interval self \<le> curr_time w - last_update self"
  proof -
    from that have "\<not> curr_time w - last_update self < min_update_interval self" by simp
    then show ?thesis using on_image_self on_image_log by blast
  qed
  have drop: "on_image pil w self effects item = (Inr (), self, effects)"
    if "curr_time w - last_update self < min_update_interval self"
    using that by (rule on_image_limited)
  have early: "on_image pil w self effects item = (Inr (), self, effects)"
    if "last_update self = t_last" "min_update_interval self = T" "0 < eps"
       "curr_time w = t_last + T - eps"
  proof (rule drop)
    from that show "curr_time w - last_update self < min_update_interval self" by simp
  qed
  have due: "last_update (fst (snd (on_image pil w self effects item))) = t_last + T
      \<and> (\<exists>more. snd (snd (on_image pil w self effects item))
                   = effects @ LogInfo ''Posting image'' # more)"
    if "last_update self = t_last" "min_update_interval self = T" "curr_time w = t_last + T"
  proof -
    from that have "min_update_interval self \<le> curr_time w - last_update self" by simp
    from pass [OF this] that(3) show ?thesis by simp
  qed
  from pass drop early due show ?thesis by blast
qed

theorem C7_rate_gate_witness:
  "on_image \<lparr>fromstring = (\<lambda>mode size d. Some d), save_png = (\<lambda>img. Some img)\<rparr>
     \<lparr>curr_time = 109, stamp_time = 109, save_reply = Some (''a'', ''1''),
      put_reply = Some (201, '''')\<rparr>
     \<lparr>db = ''http://db'', variable = ''aerial_image'', environment = ''env'',
      min_update_interval = 10, last_update = 100\<rparr>
     [] \<lparr>encoding = ''rgb8'', width = 1, height = 1, data = ''abc''\<rparr>
   = (Inr (),
      \<lparr>db = ''http://db'', variable = ''aerial_image'', environment = ''env'',
       min_update_interval = 10, last_update = 100\<rparr>, [])
   \<and> last_update (fst (snd (on_image
        \<lparr>fromstring = (\<lambda>mode size d. Some d), save_png = (\<lambda>img. Some img)\<rparr>
        \<lparr>curr_time = 110, stamp_time = 110, save_reply = Some (''a'', ''1''),
         put_reply = Some (201, '''')\<rparr>
        \<lparr>db = ''http://db'', variable = ''aerial_image'', environment = ''env'',
         min_update_interval = 10, last_update = 100\<rparr>
        [] \<lparr>encoding = ''rgb8'', width = 1, height = 1, data = ''abc''\<rparr>))) = 100 + 10"
proof -
  let ?pil = "\<lparr>fromstring = (\<lambda>mode size d. Some d), save_png = (\<lambda>img. Some img)\<rparr>
                :: string PIL"
  let ?item = "\<lparr>encoding = ''rgb8'', width = 1, height = 1, data = ''abc''\<rparr>"
  let ?sink = "\<lparr>db = ''http://db'', variable = ''aerial_image'', environment = ''env'',
       min_update_interval = 10, last_update = 100\<rparr>"
  let ?w1 = "\<lparr>curr_time = 109, stamp_time = 109, save_reply = Some (''a'', ''1''),
      put_reply = Some (201, '''')\<rparr>"
  let ?w2 = "\<lparr>curr_time = 110, stamp_time = 110, save_reply = Some (''a'', ''1''),
         put_reply = Some (201, '''')\<rparr>"
  have h1: "last_update ?sink = 100 \<and> min_update_interval ?sink = 10 \<and> (0::real) < 1
              \<and> curr_time ?w1 = 100 + 10 - 1"
    and h2: "last_update ?sink = 100 \<and> min_update_interval ?sink = 10
              \<and> curr_time ?w2 = 100 + 10"
    by simp_all
  note early = C7_rate_gate [where self = ?sink and w = ?w1 and pil = ?pil and effects = "[]"
      and item = ?item and t_last = 100 and T = 10 and eps = 1]
  note due = C7_rate_gate [where self = ?sink and w = ?w2 and pil = ?pil and effects = "[]"
      and item = ?item and t_last = 100 and T = 10 and eps = 1]
  from early [THEN conjunct2, THEN conjunct2, THEN conjunct1, rule_format, OF h1]
    due [THEN conjunct2, THEN conjunct2, THEN conjunct2, rule_format, OF h2, THEN conjunct1]
  show ?thesis by (rule conjI)
qed

subsection \<open>The first check of a sink\<close>

text \<open>
  C2, as stated, fails: \<open>last_update\<close> starts at 0, so with \<open>min_update_interval = 10\<close> the
  first frame, arriving at \<open>t = 0\<close>, does not pass the gate (\<open>0 - 0 < 10\<close>) and leaves no
  effect; of the frames at \<open>t = 0, 4, 9, 11\<close> only the one at \<open>t = 11\<close> is saved.
\<close>

theorem C2_counterexample:
  "on_image \<lparr>fromstring = (\<lambda>mode size d. Some d), save_png = (\<lambda>img. Some img)\<rparr>
     \<lparr>curr_time = 0, stamp_time = 0, save_reply = Some (''id0'', ''1''),
      put_reply = Some (201, '''')\<rparr>
     (ImagePersistence_init ''http://db'' ''/cameras/c/image_raw'' ''aerial_image'' ''env'' 10)
     []
     \<lparr>encoding = ''rgb8'', width = 1, height = 1, data = ''abc''\<rparr>
   = (Inr (),
      ImagePersistence_init ''http://db'' ''/cameras/c/image_raw'' ''aerial_image'' ''env'' 10,
      [])
   \<and> map timestamp (saved_points (snd (on_images
       \<lparr>fromstring = (\<lambda>mode size d. Some d), save_png = (\<lambda>img. Some img)\<rparr>
       (ImagePersistence_init ''http://db'' ''/cameras/c/image_raw'' ''aerial_image'' ''env'' 10)
       []
       [(\<lparr>curr_time = 0, stamp_time = 0, save_reply = Some (''id0'', ''1''),
          put_reply = Some (201, '''')\<rparr>,
         \<lparr>encoding = ''rgb8'', width = 1, height = 1, data = ''abc''\<rparr>),
        (\<lparr>curr_time = 4, stamp_time = 4, save_reply = Some (''id4'', ''1''),
          put_reply = Some (201, '''')\<rparr>,
         \<lparr>encoding = ''rgb8'', width = 1, height = 1, data = ''abc''\<rparr>),
        (\<lparr>curr_time = 9, stamp_time = 9, save_reply = Some (''id9'', ''1''),
          put_reply = Some (201, '''')\<rparr>,
         \<lparr>encoding = ''rgb8'', width = 1, height = 1, data = ''abc''\<rparr>),
        (\<lparr>curr_time = 11, stamp_time = 11, save_reply = Some (''id11'', ''1''),
          put_reply = Some (201, '''')\<rparr>,
         \<lparr>encoding = ''rgb8'', width = 1, height = 1, data = ''abc''\<rparr>)]))) = [11]"
proof -
  let ?pil = "\<lparr>fromstring = (\<lambda>mode size d. Some d), save_png = (\<lambda>img. Some img)\<rparr>
                :: string PIL"
  let ?sink = "ImagePersistence_init ''http://db'' ''/cameras/c/image_raw'' ''aerial_image''
                 ''env'' 10"
  let ?item = "\<lparr>encoding = ''rgb8'', width = 1, height = 1, data = ''abc''\<rparr>"
  let ?w0 = "\<lparr>curr_time = 0, stamp_time = 0, save_reply = Some (''id0'', ''1''),
               put_reply = Some (201, '''')\<rparr>"
  let ?w4 = "\<lparr>curr_time = 4, stamp_time = 4, save_reply = Some (''id4'', ''1''),
               put_reply = Some (201, '''')\<rparr>"
  let ?w9 = "\<lparr>curr_time = 9, stamp_time = 9, save_reply = Some (''id9'', ''1''),
               put_reply = Some (201, '''')\<rparr>"
  let ?w11 = "\<lparr>curr_time = 11, stamp_time = 11, save_reply = Some (''id11'', ''1''),
               put_reply = Some (201, '''')\<rparr>"
  have l0: "curr_time ?w0 - last_update ?sink < min_update_interval ?sink"
    and l4: "curr_time ?w4 - last_update ?sink < min_update_interval ?sink"
    and l9: "curr_time ?w9 - last_update ?sink < min_update_interval ?sink"
    and g11: "\<not> curr_time ?w11 - last_update ?sink < min_update_interval ?sink"
    by (simp_all add: ImagePersistence_init_def)
  have first: "on_image ?pil ?w0 ?sink [] ?item = (Inr (), ?sink, [])"
    using l0 by (rule on_image_limited)
  have fmt: "image_format_mapping (encoding ?item) = Some ''RGB''"
    by (simp add: format_rgb8)
  have img: "fromstring ?pil ''RGB'' (width ?item, height ?item) (data ?item) = Some ''abc''"
    by simp
  have saved: "save_reply ?w11 = Some (''id11'', ''1'')" by simp
  have png: "save_png ?pil ''abc'' = Some ''abc''" by simp
  have run: "on_images ?pil ?sink [] [(?w0, ?item), (?w4, ?item), (?w9, ?item), (?w11, ?item)]
          = snd (on_image ?pil ?w11 ?sink [] ?item)"
    by (simp only: on_images_Cons_limited [OF l0] on_images_Cons_limited [OF l4]
          on_images_Cons_limited [OF l9] on_images_single)
  note post = on_image_posted [OF g11 fmt img saved png, of "[]"]
  have "map timestamp (saved_points (snd (on_images ?pil ?sink []
          [(?w0, ?item), (?w4, ?item), (?w9, ?item), (?w11, ?item)]))) = [11]"
    unfolding run post by simp
  with first show ?thesis by (rule conjI)
qed

text \<open>
  C2 (amended): the gate starts with \<open>last_update = 0\<close>, so the first check of a freshly
  constructed sink goes on whenever the arrival time of the first frame is at least
  \<open>min_update_interval\<close>. With \<open>min_update_interval = 10\<close>, a first arrival time
  \<open>t_first \<ge> 10\<close> and frames arriving at \<open>t_first\<close>, \<open>t_first + 4\<close>, \<open>t_first + 9\<close> and
  \<open>t_first + 11\<close>, exactly the frames at \<open>t_first\<close> and \<open>t_first + 11\<close> are persisted (these two
  having a supported encoding that the imaging library decodes, and their \<open>db.save\<close>
  returning): the saved documents are those that were there before, followed by one for
  each of the two frames.
\<close>

theorem C2_first_check:
  "(interval \<le> curr_time w \<longrightarrow>
      fst (snd (on_image pil w (ImagePersistence_init db_url topic variable_name env interval)
                  effects item))
        = (ImagePersistence_init db_url topic variable_name env interval)
            \<lparr>last_update := curr_time w\<rparr>
      \<and> (\<exists>more. snd (snd (on_image pil w
                   (ImagePersistence_init db_url topic variable_name env interval) effects item))
                   = effects @ LogInfo ''Posting image'' # more))
   \<and> (10 \<le> t_first
        \<and> curr_time w_a = t_first \<and> curr_time w_b = t_first + 4
        \<and> curr_time w_c = t_first + 9 \<and> curr_time w_d = t_first + 11
        \<and> image_format_mapping (encoding item_a) = Some format_a
        \<and> fromstring pil format_a (width item_a, height item_a) (data item_a) = Some img_a
        \<and> save_reply w_a = Some reply_a
        \<and> image_format_mapping (encoding item_d) = Some format_d
        \<and> fromstring pil format_d (width item_d, height item_d) (data item_d) = Some img_d
        \<and> save_reply w_d = Some reply_d \<longrightarrow>
      saved_points (snd (on_images pil
          (ImagePersistence_init db_url topic variable_name env 10) effects
          [(w_a, item_a), (w_b, item_b), (w_c, item_c), (w_d, item_d)]))
        = saved_points effects
          @ [\<lparr>point_environment = env, point_variable = variable_name, is_desired = False,
               point_value = None, timestamp = stamp_time w_a\<rparr>,
             \<lparr>point_environment = env, point_variable = variable_name, is_desired = False,
               point_value = None, timestamp = stamp_time w_d\<rparr>])"
proof -
  let ?sink = "ImagePersistence_init db_url topic variable_name env interval"
  let ?s0 = "ImagePersistence_init db_url topic variable_name env 10"
  have lu: "last_update ?sink = 0" and mi: "min_update_interval ?sink = interval"
    by (simp_all add: ImagePersistence_init_def)
  have pass: "fst (snd (on_image pil w ?sink effects item)) = ?sink\<lparr>last_update := curr_time w\<rparr>
      \<and> (\<exists>more. snd (snd (on_image pil w ?sink effects item))
                   = effects @ LogInfo ''Posting image'' # more)"
    if "interval \<le> curr_time w"
  proof -
    from that have "\<not> curr_time w - last_update ?sink < min_update_interval ?sink"
      by (simp add: lu mi)
    then show ?thesis using on_image_self on_image_log by blast
  qed
  have scen: "saved_points (snd (on_images pil ?s0 effects
          [(w_a, item_a), (w_b, item_b), (w_c, item_c), (w_d, item_d)]))
        = saved_points effects
          @ [\<lparr>point_environment = env, point_variable = variable_name, is_desired = False,
               point_value = None, timestamp = stamp_time w_a\<rparr>,
             \<lparr>point_environment = env, point_variable = variable_name, is_desired = False,
               point_value = None, timestamp = stamp_time w_d\<rparr>]"
    if h: "10 \<le> t_first
        \<and> curr_time w_a = t_first \<and> curr_time w_b = t_first + 4
        \<and> curr_time w_c = t_first + 9 \<and> curr_time w_d = t_first + 11
        \<and> image_format_mapping (encoding item_a) = Some format_a
        \<and> fromstring pil format_a (width item_a, height item_a) (data item_a) = Some img_a
        \<and> save_reply w_a = Some reply_a
        \<and> image_format_mapping (encoding item_d) = Some format_d
        \<and> fromstring pil format_d (width item_d, height item_d) (data item_d) = Some img_d
        \<and> save_reply w_d = Some reply_d"
  proof -
    let ?s1 = "fst (snd (on_image pil w_a ?s0 effects item_a))"
    let ?e1 = "snd (snd (on_image pil w_a ?s0 effects item_a))"
    from h have fa: "image_format_mapping (encoding item_a) = Some format_a"
      and ia: "fromstring pil format_a (width item_a, height item_a) (data item_a) = Some img_a"
      and fd: "image_format_mapping (encoding item_d) = Some format_d"
      and id: "fromstring pil format_d (width item_d, height item_d) (data item_d) = Some img_d"
      by simp_all
    from h have ga: "\<not> curr_time w_a - last_update ?s0 < min_update_interval ?s0"
      by (simp add: ImagePersistence_init_def)
    have s1: "?s1 = ?s0\<lparr>last_update := curr_time w_a\<rparr>"
      using ga by (rule on_image_self)
    from h have lb: "curr_time w_b - last_update ?s1 < min_update_interval ?s1"
      and lc: "curr_time w_c - last_update ?s1 < min_update_interval ?s1"
      and gd: "\<not> curr_time w_d - last_update ?s1 < min_update_interval ?s1"
      unfolding s1 by (simp_all add: ImagePersistence_init_def)
    have e1: "saved_points ?e1 = saved_points effects
          @ [\<lparr>point_environment = environment ?s0, point_variable = variable ?s0,
               is_desired = False, point_value = None, timestamp = stamp_time w_a\<rparr>]"
      using ga fa ia by (rule on_image_saved_points)
    have run: "on_images pil ?s0 effects
          [(w_a, item_a), (w_b, item_b), (w_c, item_c), (w_d, item_d)]
        = snd (on_image pil w_d ?s1 ?e1 item_d)"
      by (simp only: on_images_Cons [of pil ?s0] on_images_Cons_limited [OF lb]
            on_images_Cons_limited [OF lc] on_images_single)
    have "saved_points (snd (snd (on_image pil w_d ?s1 ?e1 item_d)))
        = saved_points ?e1
          @ [\<lparr>point_environment = environment ?s1, point_variable = variable ?s1,
               is_desired = False, point_value = None, timestamp = stamp_time w_d\<rparr>]"
      using gd fd id by (rule on_image_saved_points)
    then show ?thesis
      unfolding run e1 s1 by (simp add: ImagePersistence_init_def)
  qed
  show ?thesis
    by (intro conjI impI) (rule pass [THEN conjunct1] pass [THEN conjunct2] scen, assumption)+
qed

theorem C2_first_check_witness:
  "saved_points (snd (on_images
       \<lparr>fromstring = (\<lambda>mode size d. Some d), save_png = (\<lambda>img. Some img)\<rparr>
       (ImagePersistence_init ''http://db'' ''/cameras/c/image_raw'' ''aerial_image'' ''env'' 10)
       []
       [(\<lparr>curr_time = 100, stamp_time = 100, save_reply = Some (''a'', ''1''),
          put_reply = Some (201, '''')\<rparr>,
         \<lparr>encoding = ''rgb8'', width = 1, height = 1, data = ''abc''\<rparr>),
        (\<lparr>curr_time = 104, stamp_time = 104, save_reply = Some (''b'', ''1''),
          put_reply = Some (201, '''')\<rparr>,
         \<lparr>encoding = ''rgb8'', width = 1, height = 1, data = ''abc''\<rparr>),
        (\<lparr>curr_time = 109, stamp_time = 109, save_reply = Some (''c'', ''1''),
          put_reply = Some (201, '''')\<rparr>,
         \<lparr>encoding = ''rgb8'', width = 1, height = 1, data = ''abc''\<rparr>),
        (\<lparr>curr_time = 111, stamp_time = 111, save_reply = Some (''d'', ''1''),
          put_reply = Some (201, '''')\<rparr>,
         \<lparr>encoding = ''rgb8'', width = 1, height = 1, data = ''abc''\<rparr>)]))
     = [\<lparr>point_environment = ''env'', point_variable = ''aerial_image'', is_desired = False,
         point_value = None, timestamp = 100\<rparr>,
        \<lparr>point_environment = ''env'', point_variable = ''aerial_image'', is_desired = False,
         point_value = None, timestamp = 111\<rparr>]
   \<and> last_update (fst (snd (on_image
        \<lparr>fromstring = (\<lambda>mode size d. Some d), save_png = (\<lambda>img. Some img)\<rparr>
        \<lparr>curr_time = 100, stamp_time = 100, save_reply = Some (''a'', ''1''),
         put_reply = Some (201, '''')\<rparr>
        (ImagePersistence_init ''http://db'' ''/cameras/c/image_raw'' ''aerial_image'' ''env'' 10)
        [] \<lparr>encoding = ''rgb8'', width = 1, height = 1, data = ''abc''\<rparr>))) = 100"
proof -
  let ?pil = "\<lparr>fromstring = (\<lambda>mode size d. Some d), save_png = (\<lambda>img. Some img)\<rparr>
                :: string PIL"
  let ?item = "\<lparr>encoding = ''rgb8'', width = 1, height = 1, data = ''abc''\<rparr>"
  let ?sink = "ImagePersistence_init ''http://db'' ''/cameras/c/image_raw'' ''aerial_image''
                 ''env'' 10"
  let ?wa = "\<lparr>curr_time = 100, stamp_time = 100, save_reply = Some (''a'', ''1''),
               put_reply = Some (201, '''')\<rparr>"
  let ?wb = "\<lparr>curr_time = 104, stamp_time = 104, save_reply = Some (''b'', ''1''),
               put_reply = Some (201, '''')\<rparr>"
  let ?wc = "\<lparr>curr_time = 109, stamp_time = 109, save_reply = Some (''c'', ''1''),
               put_reply = Some (201, '''')\<rparr>"
  let ?wd = "\<lparr>curr_time = 111, stamp_time = 111, save_reply = Some (''d'', ''1''),
               put_reply = Some (201, '''')\<rparr>"
  have first: "(10::real) \<le> curr_time ?wa" by simp
  have hyps: "(10::real) \<le> 100
        \<and> curr_time ?wa = 100 \<and> curr_time ?wb = 100 + 4
        \<and> curr_time ?wc = 100 + 9 \<and> curr_time ?wd = 100 + 11
        \<and> image_format_mapping (encoding ?item) = Some ''RGB''
        \<and> fromstring ?pil ''RGB'' (width ?item, height ?item) (data ?item) = Some ''abc''
        \<and> save_reply ?wa = Some (''a'', ''1'')
        \<and> image_format_mapping (encoding ?item) = Some ''RGB''
        \<and> fromstring ?pil ''RGB'' (width ?item, height ?item) (data ?item) = Some ''abc''
        \<and> save_reply ?wd = Some (''d'', ''1'')"
    by (simp add: format_rgb8)
  note inst = C2_first_check [where interval = 10 and w = ?wa and pil = ?pil and effects = "[]"
      and item = ?item and db_url = "''http://db''" and topic = "''/cameras/c/image_raw''"
      and variable_name = "''aerial_image''" and env = "''env''" and t_first = 100
      and w_a = ?wa and w_b = ?wb and w_c = ?wc and w_d = ?wd
      and item_a = ?item and item_b = ?item and item_c = ?item and item_d = ?item
      and format_a = "''RGB''" and format_d = "''RGB''" and img_a = "''abc''"
      and img_d = "''abc''" and reply_a = "(''a'', ''1'')" and reply_d = "(''d'', ''1'')"]
  have "saved_points (snd (on_images ?pil ?sink []
          [(?wa, ?item), (?wb, ?item), (?wc, ?item), (?wd, ?item)]))
     = [\<lparr>point_environment = ''env'', point_variable = ''aerial_image'', is_desired = False,
         point_value = None, timestamp = 100\<rparr>,
        \<lparr>point_environment = ''env'', point_variable = ''aerial_image'', is_desired = False,
         point_value = None, timestamp = 111\<rparr>]"
    unfolding inst [THEN conjunct2, THEN mp, OF hyps] by simp
  moreover have "last_update (fst (snd (on_image ?pil ?wa ?sink [] ?item))) = 100"
    unfolding inst [THEN conjunct1, THEN mp, OF first, THEN conjunct1] by simp
  ultimately show ?thesis by (rule conjI)
qed

subsection \<open>Record first, attachment second\<close>

text \<open>
  C8, as stated, fails: the frame is decoded before anything is saved, and encoded after.
  A frame with the supported encoding \<open>rgb8\<close> that passes the gate but is not decoded by
  the imaging library (here: fewer than 3 bytes for one RGB pixel) ends the call with only
  the log line as effect, nothing saved; and one that is decoded and saved but not encoded
  ends the call after the save, with no PUT.
\<close>

theorem C8_counterexample:
  "on_image \<lparr>fromstring = (\<lambda>mode size d. if length d < 3 then None else Some d),
             save_png = (\<lambda>img. Some img)\<rparr>
     \<lparr>curr_time = 11, stamp_time = 12, save_reply = Some (''p1'', ''1-a''),
      put_reply = Some (201, '''')\<rparr>
     (ImagePersistence_init ''http://db'' ''/cameras/c/image_raw'' ''aerial_image'' ''env'' 10)
     [] \<lparr>encoding = ''rgb8'', width = 1, height = 1, data = ''ab''\<rparr>
   = (Inl PILError,
      (ImagePersistence_init ''http://db'' ''/cameras/c/image_raw'' ''aerial_image'' ''env'' 10)
        \<lparr>last_update := 11\<rparr>,
      [LogInfo ''Posting image''])
   \<and> image_format_mapping ''rgb8'' = Some ''RGB''
   \<and> saved_points [LogInfo ''Posting image''] = []
   \<and> on_image \<lparr>fromstring = (\<lambda>mode size d. Some d), save_png = (\<lambda>img. None)\<rparr>
     \<lparr>curr_time = 11, stamp_time = 12, save_reply = Some (''p1'', ''1-a''),
      put_reply = Some (201, '''')\<rparr>
     (ImagePersistence_init ''http://db'' ''/cameras/c/image_raw'' ''aerial_image'' ''env'' 10)
     [] \<lparr>encoding = ''rgb8'', width = 1, height = 1, data = ''abc''\<rparr>
   = (Inl PILError,
      (ImagePersistence_init ''http://db'' ''/cameras/c/image_raw'' ''aerial_image'' ''env'' 10)
        \<lparr>last_update := 11\<rparr>,
      [LogInfo ''Posting image'',
       DbSave \<lparr>point_environment = ''env'', point_variable = ''aerial_image'',
               is_desired = False, point_value = None, timestamp = 12\<rparr>])"
proof -
  let ?sink = "ImagePersistence_init ''http://db'' ''/cameras/c/image_raw'' ''aerial_image''
                 ''env'' 10"
  let ?w = "\<lparr>curr_time = 11, stamp_time = 12, save_reply = Some (''p1'', ''1-a''),
      put_reply = Some (201, '''')\<rparr>"
  have gate: "\<not> curr_time ?w - last_update ?sink < min_update_interval ?sink"
    by (simp add: ImagePersistence_init_def)
  let ?pil = "\<lparr>fromstring = (\<lambda>mode size d. if length d < 3 then None else Some d),
             save_png = (\<lambda>img. Some img)\<rparr> :: string PIL"
  let ?item = "\<lparr>encoding = ''rgb8'', width = 1, height = 1, data = ''ab''\<rparr>"
  have fmt: "image_format_mapping (encoding ?item) = Some ''RGB''"
    by (simp add: format_rgb8)
  have img: "fromstring ?pil ''RGB'' (width ?item, height ?item) (data ?item) = None"
    by simp
  have decode: "on_image ?pil ?w ?sink [] ?item
          = (Inl PILError, ?sink\<lparr>last_update := 11\<rparr>, [LogInfo ''Posting image''])"
    unfolding on_image_decode_failed [OF gate fmt img] by simp
  let ?pil' = "\<lparr>fromstring = (\<lambda>mode size d. Some d), save_png = (\<lambda>img. None)\<rparr>
                 :: string PIL"
  let ?item' = "\<lparr>encoding = ''rgb8'', width = 1, height = 1, data = ''abc''\<rparr>"
  have fmt': "image_format_mapping (encoding ?item') = Some ''RGB''"
    by (simp add: format_rgb8)
  have img': "fromstring ?pil' ''RGB'' (width ?item', height ?item') (data ?item') = Some ''abc''"
    by simp
  have saved: "save_reply ?w = Some (''p1'', ''1-a'')" by simp
  have png: "save_png ?pil' ''abc'' = None" by simp
  have encode: "on_image ?pil' ?w ?sink [] ?item'
          = (Inl PILError, ?sink\<lparr>last_update := 11\<rparr>,
             [LogInfo ''Posting image'',
              DbSave \<lparr>point_environment = ''env'', point_variable = ''aerial_image'',
                      is_desired = False, point_value = None, timestamp = 12\<rparr>])"
    unfolding on_image_encode_failed [OF gate fmt' img' saved png]
    by (simp add: ImagePersistence_init_def)
  have "saved_points [LogInfo ''Posting image''] = []" by simp
  with decode format_rgb8 encode show ?thesis by (intro conjI)
qed

text \<open>
  C8 (amended): for a frame that passes the gate with a supported encoding, that the
  imaging library decodes and encodes as PNG, and for which \<open>db.save\<close> returns
  \<open>(point_id, point_rev)\<close>, the effects of the call are, in this order, the log line, the
  save of a document with \<open>value\<close> absent and \<open>is_desired = False\<close>, and the PUT of the PNG
  bytes to the url built from the database url, \<open>point_id\<close> and \<open>point_rev\<close>. Whatever the PUT
  answers, the document stays among the saved ones and nothing is issued after the PUT:
  status 201 is a normal return, another status raises \<open>RuntimeError\<close> with the response
  content, and a failing request raises as well.
\<close>

theorem C8_two_phase_write:
  assumes gate: "min_update_interval self \<le> curr_time w - last_update self"
      and fmt: "image_format_mapping (encoding item) = Some image_format"
      and img: "fromstring pil image_format (width item, height item) (data item) = Some img"
      and saved: "save_reply w = Some (point_id, point_rev)"
      and png: "save_png pil img = Some buf"
  shows "snd (snd (on_image pil w self effects item))
           = effects @ [LogInfo ''Posting image'',
                        DbSave \<lparr>point_environment = environment self,
                                point_variable = variable self,
                                is_desired = False, point_value = None,
                                timestamp = stamp_time w\<rparr>,
                        HttpPut (db self @ ''/'' @ point_id @ ''/image?rev='' @ point_rev)
                          [(''Content-Type'', ''image/png'')] buf]
       \<and> saved_points (snd (snd (on_image pil w self effects item)))
           = saved_points effects
             @ [\<lparr>point_environment = environment self, point_variable = variable self,
                  is_desired = False, point_value = None, timestamp = stamp_time w\<rparr>]
       \<and> (put_reply w = Some (201, content) \<longrightarrow>
            fst (on_image pil w self effects item) = Inr ())
       \<and> (put_reply w = Some (status_code, content) \<and> status_code \<noteq> 201 \<longrightarrow>
            fst (on_image pil w self effects item)
              = Inl (RuntimeError (''Failed to post image to database: '' @ content)))
       \<and> (put_reply w = None \<longrightarrow>
            fst (on_image pil w self effects item) = Inl ConnectionError)"
proof -
  from gate have g: "\<not> curr_time w - last_update self < min_update_interval self" by simp
  note eq = on_image_posted [OF g fmt img saved png, of effects]
  have "saved_points (snd (snd (on_image pil w self effects item)))
           = saved_points effects
             @ [\<lparr>point_environment = environment self, point_variable = variable self,
                  is_desired = False, point_value = None, timestamp = stamp_time w\<rparr>]"
    unfolding eq by (simp add: saved_points_append)
  then show ?thesis
    unfolding eq by simp
qed

theorem C8_two_phase_write_witness:
  "fst (on_image \<lparr>fromstring = (\<lambda>mode size d. Some d), save_png = (\<lambda>img. Some img)\<rparr>
     \<lparr>curr_time = 11, stamp_time = 12, save_reply = Some (''p1'', ''1-a''),
      put_reply = Some (500, ''no'')\<rparr>
     (ImagePersistence_init ''http://db'' ''/cameras/c/image_raw'' ''aerial_image'' ''env'' 10)
     [] \<lparr>encoding = ''rgb8'', width = 1, height = 1, data = ''abc''\<rparr>)
   = Inl (RuntimeError (''Failed to post image to database: '' @ ''no''))
   \<and> saved_points (snd (snd (on_image
       \<lparr>fromstring = (\<lambda>mode size d. Some d), save_png = (\<lambda>img. Some img)\<rparr>
       \<lparr>curr_time = 11, stamp_time = 12, save_reply = Some (''p1'', ''1-a''),
        put_reply = Some (500, ''no'')\<rparr>
       (ImagePersistence_init ''http://db'' ''/cameras/c/image_raw'' ''aerial_image'' ''env'' 10)
       [] \<lparr>encoding = ''rgb8'', width = 1, height = 1, data = ''abc''\<rparr>)))
     = [\<lparr>point_environment = ''env'', point_variable = ''aerial_image'', is_desired = False,
         point_value = None, timestamp = 12\<rparr>]"
proof -
  let ?pil = "\<lparr>fromstring = (\<lambda>mode size d. Some d), save_png = (\<lambda>img. Some img)\<rparr>
                :: string PIL"
  let ?item = "\<lparr>encoding = ''rgb8'', width = 1, height = 1, data = ''abc''\<rparr>"
  let ?sink = "ImagePersistence_init ''http://db'' ''/cameras/c/image_raw'' ''aerial_image''
                 ''env'' 10"
  let ?w = "\<lparr>curr_time = 11, stamp_time = 12, save_reply = Some (''p1'', ''1-a''),
      put_reply = Some (500, ''no'')\<rparr>"
  have gate: "min_update_interval ?sink \<le> curr_time ?w - last_update ?sink"
    by (simp add: ImagePersistence_init_def)
  have fmt: "image_format_mapping (encoding ?item) = Some ''RGB''"
    by (simp add: format_rgb8)
  have img: "fromstring ?pil ''RGB'' (width ?item, height ?item) (data ?item) = Some ''abc''"
    by simp
  have saved: "save_reply ?w = Some (''p1'', ''1-a'')" by simp
  have png: "save_png ?pil ''abc'' = Some ''abc''" by simp
  have put: "put_reply ?w = Some (500, ''no'') \<and> (500::nat) \<noteq> 201" by simp
  note inst = C8_two_phase_write [OF gate fmt img saved png, where effects = "[]"
      and status_code = 500 and content = "''no''"]
  have "saved_points (snd (snd (on_image ?pil ?w ?sink [] ?item)))
     = [\<lparr>point_environment = ''env'', point_variable = ''aerial_image'', is_desired = False,
         point_value = None, timestamp = 12\<rparr>]"
    unfolding inst [THEN conjunct2, THEN conjunct1]
    by (simp add: ImagePersistence_init_def)
  with inst [THEN conjunct2, THEN conjunct2, THEN conjunct2, THEN conjunct1, rule_format, OF put]
  show ?thesis by (rule conjI)
qed

subsection \<open>The gate is advanced before the frame is processed\<close>

text \<open>
  C10: a call that passes the gate sets \<open>last_update\<close> to its arrival time whatever happens
  next: also when the encoding is unsupported (\<open>ValueError\<close>, only the log line as effect) or
  the save fails. Every later frame that arrives before that time plus
  \<open>min_update_interval\<close> is then dropped: a sequence of such frames leaves the object and
  the effects exactly as the gate-passing call left them.
\<close>

theorem C10_gate_advanced_first:
  assumes gate: "min_update_interval self \<le> curr_time w - last_update self"
  shows "fst (snd (on_image pil w self effects item)) = self\<lparr>last_update := curr_time w\<rparr>
       \<and> (image_format_mapping (encoding item) = None \<longrightarrow>
            on_image pil w self effects item
              = (Inl ValueError, self\<lparr>last_update := curr_time w\<rparr>,
                 effects @ [LogInfo ''Posting image'']))
       \<and> (image_format_mapping (encoding item) = Some image_format
            \<and> fromstring pil image_format (width item, height item) (data item) = Some img
            \<and> save_reply w = None \<longrightarrow>
            fst (on_image pil w self effects item) = Inl StoreError)
       \<and> ((\<forall>(w', item') \<in> set frames. curr_time w' < curr_time w + min_update_interval self) \<longrightarrow>
            on_images pil (fst (snd (on_image pil w self effects item)))
              (snd (snd (on_image pil w self effects item))) frames
              = snd (on_image pil w self effects item))"
proof -
  from gate have g: "\<not> curr_time w - last_update self < min_update_interval self" by simp
  let ?self' = "fst (snd (on_image pil w self effects item))"
  let ?effects' = "snd (snd (on_image pil w self effects item))"
  have s: "?self' = self\<lparr>last_update := curr_time w\<rparr>"
    using g by (rule on_image_self)
  have later: "on_images pil ?self' ?effects' frames = snd (on_image pil w self effects item)"
    if "\<forall>(w', item') \<in> set frames. curr_time w' < curr_time w + min_update_interval self"
  proof -
    from that
    have "\<forall>(w', item') \<in> set frames. curr_time w' - last_update ?self' < min_update_interval ?self'"
      unfolding s by auto
    then have "on_images pil ?self' ?effects' frames = (?self', ?effects')"
      by (rule on_images_early)
    then show ?thesis by simp
  qed
  have u: "on_image pil w self effects item
              = (Inl ValueError, self\<lparr>last_update := curr_time w\<rparr>,
                 effects @ [LogInfo ''Posting image''])"
    if "image_format_mapping (encoding item) = None"
    using g that by (rule on_image_unsupported)
  have f: "fst (on_image pil w self effects item) = Inl StoreError"
    if "image_format_mapping (encoding item) = Some image_format
            \<and> fromstring pil image_format (width item, height item) (data item) = Some img
            \<and> save_reply w = None"
  proof -
    from that have a: "image_format_mapping (encoding item) = Some image_format"
      and b: "fromstring pil image_format (width item, height item) (data item) = Some img"
      and c: "save_reply w = None"
      by simp_all
    from g a b c show ?thesis by (rule on_image_save_failed)
  qed
  show ?thesis
  proof (intro conjI impI)
    show "?self' = self\<lparr>last_update := curr_time w\<rparr>" by (rule s)
  qed (rule u f later, assumption)+
qed

theorem C10_gate_advanced_first_witness:
  "on_image \<lparr>fromstring = (\<lambda>mode size d. Some d), save_png = (\<lambda>img. Some img)\<rparr>
     \<lparr>curr_time = 11, stamp_time = 11, save_reply = Some (''a'', ''1''),
      put_reply = Some (201, '''')\<rparr>
     (ImagePersistence_init ''http://db'' ''/cameras/c/image_raw'' ''aerial_image'' ''env'' 10)
     [] \<lparr>encoding = ''mono8'', width = 1, height = 1, data = ''a''\<rparr>
   = (Inl ValueError,
      (ImagePersistence_init ''http://db'' ''/cameras/c/image_raw'' ''aerial_image'' ''env'' 10)
        \<lparr>last_update := curr_time \<lparr>curr_time = 11, stamp_time = 11,
            save_reply = Some (''a'', ''1''), put_reply = Some (201, '''')\<rparr>\<rparr>,
      [] @ [LogInfo ''Posting image''])
   \<and> on_images \<lparr>fromstring = (\<lambda>mode size d. Some d), save_png = (\<lambda>img. Some img)\<rparr>
       (fst (snd (on_image
          \<lparr>fromstring = (\<lambda>mode size d. Some d), save_png = (\<lambda>img. Some img)\<rparr>
          \<lparr>curr_time = 11, stamp_time = 11, save_reply = Some (''a'', ''1''),
           put_reply = Some (201, '''')\<rparr>
          (ImagePersistence_init ''http://db'' ''/cameras/c/image_raw'' ''aerial_image'' ''env'' 10)
          [] \<lparr>encoding = ''mono8'', width = 1, height = 1, data = ''a''\<rparr>)))
       (snd (snd (on_image
          \<lparr>fromstring = (\<lambda>mode size d. Some d), save_png = (\<lambda>img. Some img)\<rparr>
          \<lparr>curr_time = 11, stamp_time = 11, save_reply = Some (''a'', ''1''),
           put_reply = Some (201, '''')\<rparr>
          (ImagePersistence_init ''http://db'' ''/cameras/c/image_raw'' ''aerial_image'' ''env'' 10)
          [] \<lparr>encoding = ''mono8'', width = 1, height = 1, data = ''a''\<rparr>)))
       [(\<lparr>curr_time = 12, stamp_time = 12, save_reply = Some (''b'', ''1''),
          put_reply = Some (201, '''')\<rparr>,
         \<lparr>encoding = ''rgb8'', width = 1, height = 1, data = ''abc''\<rparr>),
        (\<lparr>curr_time = 20, stamp_time = 20, save_reply = Some (''c'', ''1''),
          put_reply = Some (201, '''')\<rparr>,
         \<lparr>encoding = ''rgb8'', width = 1, height = 1, data = ''abc''\<rparr>)]
     = snd (on_image \<lparr>fromstring = (\<lambda>mode size d. Some d), save_png = (\<lambda>img. Some img)\<rparr>
          \<lparr>curr_time = 11, stamp_time = 11, save_reply = Some (''a'', ''1''),
           put_reply = Some (201, '''')\<rparr>
          (ImagePersistence_init ''http://db'' ''/cameras/c/image_raw'' ''aerial_image'' ''env'' 10)
          [] \<lparr>encoding = ''mono8'', width = 1, height = 1, data = ''a''\<rparr>)"
proof -
  let ?pil = "\<lparr>fromstring = (\<lambda>mode size d. Some d), save_png = (\<lambda>img. Some img)\<rparr>
                :: string PIL"
  let ?bad = "\<lparr>encoding = ''mono8'', width = 1, height = 1, data = ''a''\<rparr>"
  let ?item = "\<lparr>encoding = ''rgb8'', width = 1, height = 1, data = ''abc''\<rparr>"
  let ?sink = "ImagePersistence_init ''http://db'' ''/cameras/c/image_raw'' ''aerial_image''
                 ''env'' 10"
  let ?w = "\<lparr>curr_time = 11, stamp_time = 11, save_reply = Some (''a'', ''1''),
      put_reply = Some (201, '''')\<rparr>"
  let ?frames = "[(\<lparr>curr_time = 12, stamp_time = 12, save_reply = Some (''b'', ''1''),
          put_reply = Some (201, '''')\<rparr>, ?item),
        (\<lparr>curr_time = 20, stamp_time = 20, save_reply = Some (''c'', ''1''),
          put_reply = Some (201, '''')\<rparr>, ?item)]"
  have gate: "min_update_interval ?sink \<le> curr_time ?w - last_update ?sink"
    by (simp add: ImagePersistence_init_def)
  have bad: "image_format_mapping (encoding ?bad) = None"
    by (simp add: image_format_mapping_def)
  have early: "\<forall>(w', item') \<in> set ?frames. curr_time w' < curr_time ?w + min_update_interval ?sink"
    by (simp add: ImagePersistence_init_def)
  note inst = C10_gate_advanced_first [OF gate, where pil = ?pil and effects = "[]"
      and item = ?bad and frames = ?frames]
  from inst [THEN conjunct2, THEN conjunct1, rule_format, OF bad]
    inst [THEN conjunct2, THEN conjunct2, THEN conjunct2, THEN mp, OF early]
  show ?thesis by (rule conjI)
qed

end
